theory Spec2Isabelle
  imports Main "HOL-Library.Multiset" "HOL-Library.Char_ord" "HOL-Library.List_Lexorder"
begin

section \<open>Documents of the store\<close>

text \<open>
  The collections \<open>apps\<close>, \<open>leaderboards\<close>, \<open>players\<close> and \<open>scores\<close> hold the documents
  the controllers build. Identifiers, API keys and time stamps are Python strings
  (\<open>str(uuid.uuid4())\<close>, \<open>secrets.token_urlsafe(32)\<close>, \<open>datetime.now().isoformat()\<close>);
  a score value is an integer, as the request schema declares it.
\<close>

record app =
  a_id :: string
  a_name :: string
  a_api_key :: string
  a_created_at :: string

record leaderboard =
  l_id :: string
  l_app_id :: string
  l_name :: string
  l_sort_order :: "string option"
  l_created_at :: string

record player =
  p_id :: string
  p_app_id :: string
  p_device_id :: string
  p_user_id :: "string option"
  p_username :: string
  p_avatar_url :: "string option"
  p_created_at :: string
  p_linked_at :: "string option"

record score =
  s_id :: string
  s_leaderboard_id :: string
  s_player_id :: string
  s_score :: int
  s_metadata :: "(string \<times> string) list"
  s_created_at :: string

text \<open>
  A collection is the list of its documents in insertion order. The database handle is
  what \<open>MongoConnectionHolder.get_db()\<close> returns: \<open>None\<close> when there is no connection.
  A handler and the \<open>validate_api_key\<close> it calls both ask for the handle; one request
  sees one handle.
\<close>

record database =
  apps :: "app list"
  leaderboards :: "leaderboard list"
  players :: "player list"
  scores :: "score list"

section \<open>Responses\<close>

text \<open>
  A handler returns \<open>jsonify(body), status\<close>. \<open>Error msg status\<close> is the body
  \<open>{'error': msg}\<close>; \<open>Success body status\<close> carries the payload of a successful call;
  \<open>Unhandled e\<close> is an exception that leaves the handler, which Flask answers with 500.
\<close>

datatype exn = ValueError | TypeError | DuplicateKeyError

datatype 'a response = Error string nat | Success 'a nat | Unhandled exn


record ranked_entry =
  e_rank :: int
  e_score :: score
  e_player :: "player option"

record top_scores_body =
  ts_leaderboard :: leaderboard
  ts_total_scores :: nat
  ts_scores :: "ranked_entry list"

record player_rank_body =
  pr_player :: player
  pr_best_score :: score
  pr_rank :: int
  pr_total_players :: nat
  pr_nearby :: "ranked_entry list"

record player_scores_body =
  ps_player :: player
  ps_scores :: "(score \<times> leaderboard option) list"

section \<open>The driver's primitives\<close>

text \<open>
  \<open>find_one\<close> returns the first matching document; \<open>find\<close> with a filter is
  \<open>filter\<close> on the list, all matching documents in insertion order.
  \<open>cursor_sort\<close> orders by a key, ascending for direction 1 and descending for
  direction -1, and keeps documents with equal keys in insertion order. \<open>cursor_limit\<close>
  follows the driver: a limit of 0 is no limit, a negative limit counts as its absolute value.
  \<open>insert_one\<close> appends, and raises \<open>DuplicateKeyError\<close> on an \<open>_id\<close> already present.
\<close>

definition find_one :: "('a \<Rightarrow> bool) \<Rightarrow> 'a list \<Rightarrow> 'a option" where
  "find_one P xs = List.find P xs"

definition cursor_sort :: "('a \<Rightarrow> 'k::linorder) \<Rightarrow> int \<Rightarrow> 'a list \<Rightarrow> 'a list" where
  "cursor_sort key direction xs =
     (if direction = - 1 then rev (sort_key key (rev xs)) else sort_key key xs)"

definition cursor_limit :: "int \<Rightarrow> 'a list \<Rightarrow> 'a list" where
  "cursor_limit n xs = (if n = 0 then xs else take (nat \<bar>n\<bar>) xs)"

definition count_documents :: "('a \<Rightarrow> bool) \<Rightarrow> 'a list \<Rightarrow> nat" where
  "count_documents P xs = length (filter P xs)"

definition distinct_field :: "('a \<Rightarrow> 'b) \<Rightarrow> ('a \<Rightarrow> bool) \<Rightarrow> 'a list \<Rightarrow> 'b list" where
  "distinct_field f P xs = remdups (map f (filter P xs))"

definition insert_one :: "('a \<Rightarrow> string) \<Rightarrow> 'a \<Rightarrow> 'a list \<Rightarrow> exn + 'a list" where
  "insert_one ident x xs =
     (if ident x \<in> set (map ident xs) then Inl DuplicateKeyError else Inr (xs @ [x]))"

section \<open>Python built-ins\<close>

text \<open>
  A query-string argument, by what \<open>int(request.args.get(name, default))\<close> does with it:
  absent, the text of an integer, or a text \<open>int\<close> rejects with \<open>ValueError\<close>.
\<close>

datatype query_arg = Absent | Given int | Malformed

fun int_arg :: "query_arg \<Rightarrow> int \<Rightarrow> exn + int" where
  "int_arg Absent dflt = Inr dflt"
| "int_arg (Given v) dflt = Inr v"
| "int_arg Malformed dflt = Inl ValueError"

text \<open>\<open>xs[start:stop]\<close>: a negative bound counts from the end, and both are clamped.\<close>

definition py_slice :: "'a list \<Rightarrow> int \<Rightarrow> int \<Rightarrow> 'a list" where
  "py_slice xs start stop =
     (let n = int (length xs);
          lo = (if start < 0 then max 0 (n + start) else min start n);
          hi = (if stop < 0 then max 0 (n + stop) else min stop n)
      in take (nat (hi - lo)) (drop (nat lo) xs))"

section \<open>apps_controller\<close>

definition validate_api_key :: "database option \<Rightarrow> string \<Rightarrow> app option" where
  "validate_api_key conn api_key =
     (case conn of
        None \<Rightarrow> None
      | Some db \<Rightarrow> find_one (\<lambda>a. a_api_key a = api_key) (apps db))"

section \<open>scores_controller\<close>

definition get_leaderboard_sort_order :: "database \<Rightarrow> string \<Rightarrow> int" where
  "get_leaderboard_sort_order db leaderboard_id =
     (case find_one (\<lambda>l. l_id l = leaderboard_id) (leaderboards db) of
        Some leaderboard \<Rightarrow>
          (if (case l_sort_order leaderboard of None \<Rightarrow> ''desc'' | Some so \<Rightarrow> so) = ''desc''
           then - 1 else 1)
      | None \<Rightarrow> - 1)"

text \<open>The JSON body of a score submission; a field that is \<open>None\<close> is absent.\<close>

record submit_data =
  d_leaderboard_id :: "string option"
  d_player_id :: "string option"
  d_score :: "int option"
  d_metadata :: "(string \<times> string) list option"

text \<open>
  \<open>submit_score\<close> returns the response and the database handle after the request.
  \<open>new_id\<close> and \<open>now\<close> are the values of \<open>str(uuid.uuid4())\<close> and
  \<open>datetime.now().isoformat()\<close>.
\<close>

definition submit_score ::
  "database option \<Rightarrow> string option \<Rightarrow> submit_data option \<Rightarrow> string \<Rightarrow> string
     \<Rightarrow> score response \<times> database option" where
  "submit_score conn api_key data new_id now =
     (case api_key of
        None \<Rightarrow> (Error ''API key is required'' 401, conn)
      | Some k \<Rightarrow>
     if k = [] then (Error ''API key is required'' 401, conn) else
     (case validate_api_key conn k of
        None \<Rightarrow> (Error ''Invalid API key'' 401, conn)
      | Some app \<Rightarrow>
     (case conn of
        None \<Rightarrow> (Error ''Could not connect to the database'' 500, conn)
      | Some db \<Rightarrow>
     (case data of
        None \<Rightarrow> (Error ''leaderboard_id, player_id, and score are required'' 400, conn)
      | Some d \<Rightarrow>
     (case (d_leaderboard_id d, d_player_id d, d_score d) of
        (Some lid, Some pid, Some v) \<Rightarrow>
          (case find_one (\<lambda>l. l_id l = lid \<and> l_app_id l = a_id app) (leaderboards db) of
             None \<Rightarrow> (Error ''Leaderboard not found'' 404, conn)
           | Some leaderboard \<Rightarrow>
          (case find_one (\<lambda>p. p_id p = pid \<and> p_app_id p = a_id app) (players db) of
             None \<Rightarrow> (Error ''Player not found'' 404, conn)
           | Some player \<Rightarrow>
          (let score_item = \<lparr>s_id = new_id, s_leaderboard_id = lid, s_player_id = pid,
                 s_score = v,
                 s_metadata = (case d_metadata d of None \<Rightarrow> [] | Some m \<Rightarrow> m),
                 s_created_at = now\<rparr>
           in case insert_one s_id score_item (scores db) of
                Inl e \<Rightarrow> (Unhandled e, conn)
              | Inr scores' \<Rightarrow> (Success score_item 201, Some (db\<lparr>scores := scores'\<rparr>)))))
      | _ \<Rightarrow> (Error ''leaderboard_id, player_id, and score are required'' 400, conn))))))"

definition get_top_scores ::
  "database option \<Rightarrow> string option \<Rightarrow> string \<Rightarrow> query_arg \<Rightarrow> top_scores_body response" where
  "get_top_scores conn api_key leaderboard_id limit_arg =
     (case api_key of
        None \<Rightarrow> Error ''API key is required'' 401
      | Some k \<Rightarrow>
     if k = [] then Error ''API key is required'' 401 else
     (case validate_api_key conn k of
        None \<Rightarrow> Error ''Invalid API key'' 401
      | Some app \<Rightarrow>
     (case conn of
        None \<Rightarrow> Error ''Could not connect to the database'' 500
      | Some db \<Rightarrow>
     (case find_one (\<lambda>l. l_id l = leaderboard_id \<and> l_app_id l = a_id app) (leaderboards db) of
        None \<Rightarrow> Error ''Leaderboard not found'' 404
      | Some leaderboard \<Rightarrow>
     (case int_arg limit_arg 10 of
        Inl e \<Rightarrow> Unhandled e
      | Inr v \<Rightarrow>
     (let limit = min v 100;
          sort_direction = get_leaderboard_sort_order db leaderboard_id;
          top_scores = cursor_limit limit (cursor_sort s_score sort_direction
             (filter (\<lambda>s. s_leaderboard_id s = leaderboard_id) (scores db)));
          result = map (\<lambda>(idx, score).
             \<lparr>e_rank = int idx + 1, e_score = score,
              e_player = find_one (\<lambda>p. p_id p = s_player_id score) (players db)\<rparr>)
             (enumerate 0 top_scores)
      in Success \<lparr>ts_leaderboard = leaderboard,
            ts_total_scores =
              count_documents (\<lambda>s. s_leaderboard_id s = leaderboard_id) (scores db),
            ts_scores = result\<rparr> 200))))))"

text \<open>The loop that looks for the first score of the player in the sorted list.\<close>

fun player_position :: "string \<Rightarrow> score list \<Rightarrow> nat option" where
  "player_position player_id [] = None"
| "player_position player_id (score # rest) =
     (if s_player_id score = player_id then Some 0
      else map_option Suc (player_position player_id rest))"

text \<open>The part of \<open>get_player_rank\<close> after the checks and the reading of \<open>nearby\<close>.\<close>

definition rank_and_nearby ::
  "database \<Rightarrow> player \<Rightarrow> string \<Rightarrow> string \<Rightarrow> int \<Rightarrow> player_rank_body response" where
  "rank_and_nearby db player leaderboard_id player_id nearby =
     (let sort_direction = get_leaderboard_sort_order db leaderboard_id;
          player_scores = cursor_limit 1 (cursor_sort s_score sort_direction
             (filter (\<lambda>s. s_leaderboard_id s = leaderboard_id \<and> s_player_id s = player_id)
                (scores db)))
      in case player_scores of
           [] \<Rightarrow> Error ''Player has no scores on this leaderboard'' 404
         | player_best_score # _ \<Rightarrow>
     (let better_scores_count =
            (if sort_direction = - 1
             then count_documents (\<lambda>s. s_leaderboard_id s = leaderboard_id
                    \<and> s_score s > s_score player_best_score) (scores db)
             else count_documents (\<lambda>s. s_leaderboard_id s = leaderboard_id
                    \<and> s_score s < s_score player_best_score) (scores db));
          player_rank = int better_scores_count + 1;
          total_players = length (distinct_field s_player_id
             (\<lambda>s. s_leaderboard_id s = leaderboard_id) (scores db));
          all_scores_sorted = cursor_sort s_score sort_direction
             (filter (\<lambda>s. s_leaderboard_id s = leaderboard_id) (scores db))
      in case player_position player_id all_scores_sorted of
           None \<Rightarrow> Unhandled TypeError
         | Some pos \<Rightarrow>
     (let start_idx = max 0 (int pos - nearby);
          end_idx = min (int (length all_scores_sorted)) (int pos + nearby + 1);
          nearby_scores = py_slice all_scores_sorted start_idx end_idx;
          nearby_result = map (\<lambda>(idx, score).
             \<lparr>e_rank = start_idx + int idx + 1, e_score = score,
              e_player = find_one (\<lambda>p. p_id p = s_player_id score) (players db)\<rparr>)
             (enumerate 0 nearby_scores)
      in Success \<lparr>pr_player = player, pr_best_score = player_best_score,
            pr_rank = player_rank, pr_total_players = total_players,
            pr_nearby = nearby_result\<rparr> 200)))"

definition get_player_rank ::
  "database option \<Rightarrow> string option \<Rightarrow> string \<Rightarrow> string \<Rightarrow> query_arg
     \<Rightarrow> player_rank_body response" where
  "get_player_rank conn api_key leaderboard_id player_id nearby_arg =
     (case api_key of
        None \<Rightarrow> Error ''API key is required'' 401
      | Some k \<Rightarrow>
     if k = [] then Error ''API key is required'' 401 else
     (case validate_api_key conn k of
        None \<Rightarrow> Error ''Invalid API key'' 401
      | Some app \<Rightarrow>
     (case conn of
        None \<Rightarrow> Error ''Could not connect to the database'' 500
      | Some db \<Rightarrow>
     (case find_one (\<lambda>l. l_id l = leaderboard_id \<and> l_app_id l = a_id app) (leaderboards db) of
        None \<Rightarrow> Error ''Leaderboard not found'' 404
      | Some leaderboard \<Rightarrow>
     (case find_one (\<lambda>p. p_id p = player_id \<and> p_app_id p = a_id app) (players db) of
        None \<Rightarrow> Error ''Player not found'' 404
      | Some player \<Rightarrow>
     (case int_arg nearby_arg 5 of
        Inl e \<Rightarrow> Unhandled e
      | Inr v \<Rightarrow> rank_and_nearby db player leaderboard_id player_id (min v 20)))))))"

text \<open>
  \<open>app_leaderboards\<close> is the dictionary \<open>{lb['_id']: lb for lb in ...}\<close>: of two
  leaderboards with one id the later one stays.
\<close>

definition get_player_scores ::
  "database option \<Rightarrow> string option \<Rightarrow> string \<Rightarrow> player_scores_body response" where
  "get_player_scores conn api_key player_id =
     (case api_key of
        None \<Rightarrow> Error ''API key is required'' 401
      | Some k \<Rightarrow>
     if k = [] then Error ''API key is required'' 401 else
     (case validate_api_key conn k of
        None \<Rightarrow> Error ''Invalid API key'' 401
      | Some app \<Rightarrow>
     (case conn of
        None \<Rightarrow> Error ''Could not connect to the database'' 500
      | Some db \<Rightarrow>
     (case find_one (\<lambda>p. p_id p = player_id \<and> p_app_id p = a_id app) (players db) of
        None \<Rightarrow> Error ''Player not found'' 404
      | Some player \<Rightarrow>
     (let app_leaderboards = map_of (rev (map (\<lambda>lb. (l_id lb, lb))
             (filter (\<lambda>l. l_app_id l = a_id app) (leaderboards db))));
          player_scores = cursor_sort s_created_at (- 1)
             (filter (\<lambda>s. s_player_id s = player_id
                \<and> s_leaderboard_id s \<in> dom app_leaderboards) (scores db));
          result = map (\<lambda>score. (score, app_leaderboards (s_leaderboard_id score)))
             player_scores
      in Success \<lparr>ps_player = player, ps_scores = result\<rparr> 200)))))"

section \<open>players_controller\<close>

record register_data =
  r_username :: "string option"
  r_device_id :: "string option"
  r_avatar_url :: "string option"

definition register_player ::
  "database option \<Rightarrow> string option \<Rightarrow> register_data option \<Rightarrow> string \<Rightarrow> string
     \<Rightarrow> (string \<times> player) response \<times> database option" where
  "register_player conn api_key data new_id now =
     (case api_key of
        None \<Rightarrow> (Error ''API key is required'' 401, conn)
      | Some k \<Rightarrow>
     if k = [] then (Error ''API key is required'' 401, conn) else
     (case validate_api_key conn k of
        None \<Rightarrow> (Error ''Invalid API key'' 401, conn)
      | Some app \<Rightarrow>
     (case conn of
        None \<Rightarrow> (Error ''Could not connect to the database'' 500, conn)
      | Some db \<Rightarrow>
     (case data of
        None \<Rightarrow> (Error ''Username is required'' 400, conn)
      | Some d \<Rightarrow>
     (case r_username d of
        None \<Rightarrow> (Error ''Username is required'' 400, conn)
      | Some username \<Rightarrow>
     (case r_device_id d of
        None \<Rightarrow> (Error ''device_id is required'' 400, conn)
      | Some device_id \<Rightarrow>
     if device_id = [] then (Error ''device_id is required'' 400, conn) else
     (case find_one (\<lambda>p. p_app_id p = a_id app \<and> p_device_id p = device_id) (players db) of
        Some existing_player \<Rightarrow> (Success (''Player already exists'', existing_player) 200, conn)
      | None \<Rightarrow>
     (let player_item = \<lparr>p_id = new_id, p_app_id = a_id app, p_device_id = device_id,
            p_user_id = None, p_username = username, p_avatar_url = r_avatar_url d,
            p_created_at = now, p_linked_at = None\<rparr>
      in case insert_one p_id player_item (players db) of
           Inl e \<Rightarrow> (Unhandled e, conn)
         | Inr players' \<Rightarrow>
             (Success (''Player registered successfully'', player_item) 201,
              Some (db\<lparr>players := players'\<rparr>))))))))))"

section \<open>Reading a response\<close>

fun top_entries :: "top_scores_body response \<Rightarrow> ranked_entry list" where
  "top_entries (Success body st) = ts_scores body"
| "top_entries (Error msg st) = []"
| "top_entries (Unhandled e) = []"

fun top_total :: "top_scores_body response \<Rightarrow> nat option" where
  "top_total (Success body st) = Some (ts_total_scores body)"
| "top_total (Error msg st) = None"
| "top_total (Unhandled e) = None"

fun nearby_entries :: "player_rank_body response \<Rightarrow> ranked_entry list" where
  "nearby_entries (Success body st) = pr_nearby body"
| "nearby_entries (Error msg st) = []"
| "nearby_entries (Unhandled e) = []"

text \<open>The score records a response holds, for each of the three queries.\<close>

fun top_scores_records :: "top_scores_body response \<Rightarrow> score list" where
  "top_scores_records (Success body st) = map e_score (ts_scores body)"
| "top_scores_records (Error msg st) = []"
| "top_scores_records (Unhandled e) = []"

fun player_rank_records :: "player_rank_body response \<Rightarrow> score list" where
  "player_rank_records (Success body st) = pr_best_score body # map e_score (pr_nearby body)"
| "player_rank_records (Error msg st) = []"
| "player_rank_records (Unhandled e) = []"

fun player_scores_records :: "player_scores_body response \<Rightarrow> score list" where
  "player_scores_records (Success body st) = map fst (ps_scores body)"
| "player_scores_records (Error msg st) = []"
| "player_scores_records (Unhandled e) = []"

section \<open>The terms of the specification\<close>

definition leaderboard_records :: "database \<Rightarrow> string \<Rightarrow> score list" where
  "leaderboard_records db lid = filter (\<lambda>s. s_leaderboard_id s = lid) (scores db)"

definition player_values :: "database \<Rightarrow> string \<Rightarrow> string \<Rightarrow> int list" where
  "player_values db lid pid =
     map s_score (filter (\<lambda>s. s_player_id s = pid) (leaderboard_records db lid))"

text \<open>\<open>better so a b\<close>: under sort order \<open>so\<close>, the value \<open>a\<close> is strictly better than \<open>b\<close>.\<close>

definition better :: "string \<Rightarrow> int \<Rightarrow> int \<Rightarrow> bool" where
  "better so a b = (if so = ''desc'' then b < a else so = ''asc'' \<and> a < b)"

definition best_value :: "string \<Rightarrow> int list \<Rightarrow> int" where
  "best_value so vs = (if so = ''desc'' then Max (set vs) else Min (set vs))"

definition rank_of :: "string \<Rightarrow> score list \<Rightarrow> int \<Rightarrow> int" where
  "rank_of so records v = 1 + int (length (filter (\<lambda>s. better so (s_score s) v) records))"

definition distinct_value_count :: "database \<Rightarrow> string \<Rightarrow> nat" where
  "distinct_value_count db lid = length (remdups (map s_score (leaderboard_records db lid)))"

text \<open>No two leaderboards share an \<open>_id\<close>: the store's unique index on \<open>_id\<close>.\<close>

definition unique_leaderboard_ids :: "database \<Rightarrow> bool" where
  "unique_leaderboard_ids db = distinct (map l_id (leaderboards db))"

section \<open>Scenarios\<close>

definition mk_app :: "string \<Rightarrow> string \<Rightarrow> app" where
  "mk_app aid k = \<lparr>a_id = aid, a_name = aid, a_api_key = k, a_created_at = ''t0''\<rparr>"

definition mk_leaderboard :: "string \<Rightarrow> string \<Rightarrow> string \<Rightarrow> string \<Rightarrow> leaderboard" where
  "mk_leaderboard lid aid nm so =
     \<lparr>l_id = lid, l_app_id = aid, l_name = nm, l_sort_order = Some so, l_created_at = ''t0''\<rparr>"

definition mk_player :: "string \<Rightarrow> string \<Rightarrow> string \<Rightarrow> player" where
  "mk_player pid aid dev =
     \<lparr>p_id = pid, p_app_id = aid, p_device_id = dev, p_user_id = None, p_username = pid,
      p_avatar_url = None, p_created_at = ''t0'', p_linked_at = None\<rparr>"

definition mk_score :: "string \<Rightarrow> string \<Rightarrow> string \<Rightarrow> int \<Rightarrow> string \<Rightarrow> score" where
  "mk_score sid lid pid v t =
     \<lparr>s_id = sid, s_leaderboard_id = lid, s_player_id = pid, s_score = v, s_metadata = [],
      s_created_at = t\<rparr>"

definition mk_submit :: "string \<Rightarrow> string \<Rightarrow> int \<Rightarrow> submit_data option" where
  "mk_submit lid pid v =
     Some \<lparr>d_leaderboard_id = Some lid, d_player_id = Some pid, d_score = Some v,
           d_metadata = None\<rparr>"

text \<open>
  The scenario of the specification: app \<open>A\<close> with the descending leaderboard \<open>L\<close> and the
  players \<open>p1\<close> to \<open>p4\<close>; then the scores 100, 90, 100, 80 submitted in this order.
\<close>

definition scenario_start :: database where
  "scenario_start =
     \<lparr>apps = [mk_app ''A'' ''key-a''],
      leaderboards = [mk_leaderboard ''L'' ''A'' ''daily'' ''desc''],
      players = [mk_player ''p1'' ''A'' ''d1'', mk_player ''p2'' ''A'' ''d2'',
                 mk_player ''p3'' ''A'' ''d3'', mk_player ''p4'' ''A'' ''d4''],
      scores = []\<rparr>"

definition scenario_db :: database where
  "scenario_db = scenario_start
     \<lparr>scores := [mk_score ''s1'' ''L'' ''p1'' 100 ''t1'', mk_score ''s2'' ''L'' ''p2'' 90 ''t2'',
                 mk_score ''s3'' ''L'' ''p3'' 100 ''t3'', mk_score ''s4'' ''L'' ''p4'' 80 ''t4'']\<rparr>"

text \<open>
  A leaderboard with 101 scores, a leaderboard on which p1 has two scores, and two
  apps that each own a leaderboard named "daily".
\<close>

definition crowded_db :: database where
  "crowded_db = scenario_start
     \<lparr>scores := map (\<lambda>i. mk_score (''s'' @ replicate i CHR ''x'') ''L'' ''p1'' (int i) ''t1'')
                   [0..<101]\<rparr>"

definition repeat_db :: database where
  "repeat_db = scenario_start
     \<lparr>scores := [mk_score ''s1'' ''L'' ''p1'' 100 ''t1'', mk_score ''s2'' ''L'' ''p2'' 95 ''t2'',
                 mk_score ''s3'' ''L'' ''p1'' 90 ''t3'']\<rparr>"

definition tenants_db :: database where
  "tenants_db =
     \<lparr>apps = [mk_app ''A'' ''key-a'', mk_app ''B'' ''key-b''],
      leaderboards = [mk_leaderboard ''LA'' ''A'' ''daily'' ''desc'',
                      mk_leaderboard ''LB'' ''B'' ''daily'' ''desc''],
      players = [mk_player ''pa'' ''A'' ''d1'', mk_player ''pb'' ''B'' ''d1''],
      scores = [mk_score ''s1'' ''LA'' ''pa'' 50 ''t1'', mk_score ''s2'' ''LB'' ''pb'' 40 ''t2'']\<rparr>"

definition mk_register :: "string \<Rightarrow> string \<Rightarrow> register_data option" where
  "mk_register name dev = Some \<lparr>r_username = Some name, r_device_id = Some dev, r_avatar_url = None\<rparr>"

section \<open>Further terms of the specification\<close>

text \<open>
  A submission fails validation when a required field is missing, or the leaderboard or
  the player is not found among those of the authenticated app.
\<close>

definition fails_validation :: "database \<Rightarrow> app \<Rightarrow> submit_data option \<Rightarrow> bool" where
  "fails_validation db app data =
     (case data of
        None \<Rightarrow> True
      | Some d \<Rightarrow>
          d_leaderboard_id d = None \<or> d_player_id d = None \<or> d_score d = None
          \<or> \<not> list_ex (\<lambda>l. Some (l_id l) = d_leaderboard_id d \<and> l_app_id l = a_id app)
                (leaderboards db)
          \<or> \<not> list_ex (\<lambda>p. Some (p_id p) = d_player_id d \<and> p_app_id p = a_id app)
                (players db))"

text \<open>
  A list of values runs in the direction of a sort order: from high to low for
  \<open>desc\<close>, from low to high otherwise.
\<close>

definition in_direction :: "string \<Rightarrow> int list \<Rightarrow> bool" where
  "in_direction so vs = (if so = ''desc'' then sorted_wrt (\<lambda>a b. b \<le> a) vs else sorted_wrt (\<le>) vs)"

text \<open>
  The bounds \<open>start_idx\<close> and \<open>end_idx\<close> of the nearby window, as
  \<open>get_player_rank\<close> computes them from the player's position.
\<close>

definition window_start :: "nat \<Rightarrow> int \<Rightarrow> int" where
  "window_start pos nearby = max 0 (int pos - nearby)"

definition window_end :: "nat \<Rightarrow> nat \<Rightarrow> int \<Rightarrow> int" where
  "window_end len pos nearby = min (int len) (int pos + nearby + 1)"

section \<open>Facts about the driver's primitives\<close>

lemmas scenario_defs =
  scenario_db_def scenario_start_def mk_app_def mk_leaderboard_def mk_player_def mk_score_def
  mk_submit_def
  crowded_db_def repeat_db_def tenants_db_def mk_register_def

lemmas driver_defs =
  find_one_def cursor_sort_def cursor_limit_def count_documents_def distinct_field_def
  insert_one_def validate_api_key_def get_leaderboard_sort_order_def

lemma find_one_SomeD: "find_one P xs = Some x \<Longrightarrow> x \<in> set xs \<and> P x"
  by (auto simp: find_one_def find_Some_iff)

lemma find_one_exists: "x \<in> set xs \<Longrightarrow> P x \<Longrightarrow> \<exists>y. find_one P xs = Some y"
  by (cases "find_one P xs") (auto simp: find_one_def find_None_iff)

lemma find_unique:
  "distinct (map f xs) \<Longrightarrow> x \<in> set xs \<Longrightarrow> List.find (\<lambda>y. f y = f x) xs = Some x"
  by (induction xs) (auto simp: rev_image_eqI)

lemma find_append:
  "List.find P (xs @ ys) = (case List.find P xs of None \<Rightarrow> List.find P ys | Some x \<Rightarrow> Some x)"
  by (induction xs) simp_all

lemma set_cursor_sort: "set (cursor_sort key d xs) = set xs"
  by (simp add: cursor_sort_def)

lemma length_cursor_sort: "length (cursor_sort key d xs) = length xs"
  by (simp add: cursor_sort_def)

lemma mset_cursor_sort: "mset (cursor_sort key d xs) = mset xs"
  by (simp add: cursor_sort_def)

lemma cursor_sort_Nil_iff: "cursor_sort key d xs = [] \<longleftrightarrow> xs = []"
  using length_cursor_sort[of key d xs] by (metis length_0_conv)

lemma sorted_cursor_sort_desc:
  "sorted_wrt (\<lambda>a b. key b \<le> key a) (cursor_sort key (- 1) xs)"
proof -
  have "sorted (map key (sort_key key (rev xs)))" by simp
  then have "sorted_wrt (\<lambda>a b. key a \<le> key b) (sort_key key (rev xs))"
    by (simp add: sorted_map)
  then show ?thesis
    by (simp add: cursor_sort_def sorted_wrt_rev)
qed

lemma sorted_cursor_sort_asc:
  "d \<noteq> - 1 \<Longrightarrow> sorted_wrt (\<lambda>a b. key a \<le> key b) (cursor_sort key d xs)"
proof -
  assume "d \<noteq> - 1"
  moreover have "sorted (map key (sort_key key xs))" by simp
  ultimately show ?thesis
    by (simp add: cursor_sort_def sorted_map)
qed

lemma filter_cursor_sort:
  "filter P (cursor_sort key d xs) = cursor_sort key d (filter P xs)"
proof -
  have "filter P (rev (sort_key key (rev xs))) = rev (sort_key key (rev (filter P xs)))"
    by (simp only: rev_filter [symmetric] filter_sort)
  then show ?thesis
    by (simp add: cursor_sort_def filter_sort)
qed

lemma hd_cursor_sort_desc:
  assumes "xs \<noteq> []"
  shows "key (hd (cursor_sort key (- 1) xs)) = Max (key ` set xs)"
proof -
  let ?ys = "cursor_sort key (- 1) xs"
  have ne: "?ys \<noteq> []" using assms by (simp add: cursor_sort_Nil_iff)
  then obtain y ys where ys: "?ys = y # ys" by (cases ?ys) auto
  have "sorted_wrt (\<lambda>a b. key b \<le> key a) (y # ys)"
    using sorted_cursor_sort_desc[of key xs] by (simp add: ys)
  then have le: "\<forall>z \<in> set (y # ys). key z \<le> key y" by auto
  have s: "set (y # ys) = set xs" using set_cursor_sort[of key "- 1" xs] by (simp add: ys)
  have "Max (key ` set xs) = key y"
  proof (rule Max_eqI)
    show "finite (key ` set xs)" by simp
    show "\<And>v. v \<in> key ` set xs \<Longrightarrow> v \<le> key y" using le s by auto
    show "key y \<in> key ` set xs" using s by auto
  qed
  then show ?thesis by (simp add: ys)
qed

lemma hd_cursor_sort_asc:
  assumes "xs \<noteq> []" and "d \<noteq> - 1"
  shows "key (hd (cursor_sort key d xs)) = Min (key ` set xs)"
proof -
  let ?ys = "cursor_sort key d xs"
  have ne: "?ys \<noteq> []" using assms by (simp add: cursor_sort_Nil_iff)
  then obtain y ys where ys: "?ys = y # ys" by (cases ?ys) auto
  have "sorted_wrt (\<lambda>a b. key a \<le> key b) (y # ys)"
    using sorted_cursor_sort_asc[OF assms(2), of key xs] by (simp add: ys)
  then have le: "\<forall>z \<in> set (y # ys). key y \<le> key z" by auto
  have s: "set (y # ys) = set xs" using set_cursor_sort[of key d xs] by (simp add: ys)
  have "Min (key ` set xs) = key y"
  proof (rule Min_eqI)
    show "finite (key ` set xs)" by simp
    show "\<And>v. v \<in> key ` set xs \<Longrightarrow> key y \<le> v" using le s by auto
    show "key y \<in> key ` set xs" using s by auto
  qed
  then show ?thesis by (simp add: ys)
qed

lemma set_cursor_limit: "set (cursor_limit n xs) \<subseteq> set xs"
  by (auto simp: cursor_limit_def dest: in_set_takeD)

lemma py_slice_inside:
  "0 \<le> a \<Longrightarrow> a \<le> b \<Longrightarrow> b \<le> int (length xs) \<Longrightarrow>
   py_slice xs a b = take (nat b - nat a) (drop (nat a) xs)"
  by (simp add: py_slice_def Let_def nat_diff_distrib)

lemma set_py_slice: "set (py_slice xs a b) \<subseteq> set xs"
  by (auto simp: py_slice_def Let_def dest!: in_set_takeD in_set_dropD)

lemma split_window:
  "i \<le> j \<Longrightarrow> j \<le> length xs \<Longrightarrow> xs = take i xs @ take (j - i) (drop i xs) @ drop j xs"
proof -
  assume "i \<le> j" and "j \<le> length xs"
  then have "drop (j - i) (drop i xs) = drop j xs" by simp
  then have "take (j - i) (drop i xs) @ drop j xs = drop i xs"
    by (metis append_take_drop_id)
  then show ?thesis by (metis append_take_drop_id)
qed

lemma entries_scores:
  "map e_score (map (\<lambda>(idx, score). \<lparr>e_rank = f idx, e_score = score, e_player = g score\<rparr>)
     (enumerate n xs)) = xs"
  by (induction xs arbitrary: n) simp_all



lemma filter_records:
  "filter (\<lambda>s. s_leaderboard_id s = lid \<and> Q s) (scores db) = filter Q (leaderboard_records db lid)"
  by (simp add: leaderboard_records_def conj_commute)

lemma same_leaderboard:
  "unique_leaderboard_ids db \<Longrightarrow> x \<in> set (leaderboards db) \<Longrightarrow> y \<in> set (leaderboards db)
     \<Longrightarrow> l_id x = l_id y \<Longrightarrow> x = y"
  by (auto simp: unique_leaderboard_ids_def distinct_map dest: inj_onD)

lemma sort_order_of_leaderboard:
  assumes "unique_leaderboard_ids db" and "lb \<in> set (leaderboards db)" and "l_id lb = lid"
    and "l_sort_order lb = Some so"
  shows "get_leaderboard_sort_order db lid = (if so = ''desc'' then - 1 else 1)"
proof -
  have "find_one (\<lambda>l. l_id l = l_id lb) (leaderboards db) = Some lb"
    using assms(1,2) unfolding find_one_def unique_leaderboard_ids_def by (rule find_unique)
  then show ?thesis
    using assms(3,4) by (simp add: get_leaderboard_sort_order_def)
qed

lemma player_position_first:
  "pid \<in> s_player_id ` set xs \<Longrightarrow>
   \<exists>pos. player_position pid xs = Some pos \<and> pos < length xs
      \<and> xs ! pos = hd (filter (\<lambda>s. s_player_id s = pid) xs)"
  by (induction xs) auto

section \<open>The scenario of the specification\<close>

text \<open>
  The database of the scenario is what four calls of \<open>submit_score\<close> leave.
\<close>

lemma scenario_db_submitted:
  "snd (submit_score (snd (submit_score (snd (submit_score (snd (submit_score
     (Some scenario_start) (Some ''key-a'') (mk_submit ''L'' ''p1'' 100) ''s1'' ''t1''))
     (Some ''key-a'') (mk_submit ''L'' ''p2'' 90) ''s2'' ''t2''))
     (Some ''key-a'') (mk_submit ''L'' ''p3'' 100) ''s3'' ''t3''))
     (Some ''key-a'') (mk_submit ''L'' ''p4'' 80) ''s4'' ''t4'') = Some scenario_db"
  by (simp add: submit_score_def scenario_defs driver_defs Let_def)

lemma scenario_key: "validate_api_key (Some scenario_db) ''key-a'' = Some (mk_app ''A'' ''key-a'')"
  by (simp add: scenario_defs driver_defs)

lemma scenario_board: "mk_leaderboard ''L'' ''A'' ''daily'' ''desc'' \<in> set (leaderboards scenario_db)"
  by (simp add: scenario_defs)

lemma scenario_unique: "unique_leaderboard_ids scenario_db"
  by (simp add: unique_leaderboard_ids_def scenario_defs)

section \<open>Top scores\<close>

lemma get_top_scores_success:
  assumes "k \<noteq> []" and "validate_api_key (Some db) k = Some app"
    and "find_one (\<lambda>l. l_id l = lid \<and> l_app_id l = a_id app) (leaderboards db) = Some lb"
    and "int_arg arg 10 = Inr v"
  shows "get_top_scores (Some db) (Some k) lid arg =
     Success \<lparr>ts_leaderboard = lb,
        ts_total_scores = count_documents (\<lambda>s. s_leaderboard_id s = lid) (scores db),
        ts_scores = map (\<lambda>(idx, score).
             \<lparr>e_rank = int idx + 1, e_score = score,
              e_player = find_one (\<lambda>p. p_id p = s_player_id score) (players db)\<rparr>)
             (enumerate 0 (cursor_limit (min v 100)
                (cursor_sort s_score (get_leaderboard_sort_order db lid)
                   (filter (\<lambda>s. s_leaderboard_id s = lid) (scores db)))))\<rparr> 200"
  using assms by (simp add: get_top_scores_def Let_def)



text \<open>
  C8, as the code has it: for a leaderboard of the authenticated app, TopScores succeeds
  and its total is the number of score records on the leaderboard.
\<close>

theorem top_scores_total_counts_records:
  assumes "k \<noteq> []" and "validate_api_key (Some db) k = Some app"
    and "lb \<in> set (leaderboards db)" and "l_id lb = lid" and "l_app_id lb = a_id app"
    and "arg \<noteq> Malformed"
  shows "\<exists>body. get_top_scores (Some db) (Some k) lid arg = Success body 200
           \<and> ts_total_scores body = length (leaderboard_records db lid)"
proof -
  obtain lb' where f: "find_one (\<lambda>l. l_id l = lid \<and> l_app_id l = a_id app) (leaderboards db) = Some lb'"
    using find_one_exists[of lb "leaderboards db" "\<lambda>l. l_id l = lid \<and> l_app_id l = a_id app"] assms by auto
  obtain v where v: "int_arg arg 10 = Inr v"
    using assms(6) by (cases arg) auto
  show ?thesis
    by (simp add: get_top_scores_success[OF assms(1,2) f v] count_documents_def leaderboard_records_def)
qed

text \<open>
  Witness for C8: the scenario's leaderboard has four score records, and the total is 4.
\<close>

theorem top_scores_total_counts_records_witness:
  "\<exists>body. get_top_scores (Some scenario_db) (Some ''key-a'') ''L'' (Given 4) = Success body 200
       \<and> ts_total_scores body = 4"
proof -
  have k: "''key-a'' \<noteq> []" by simp
  have a: "l_id (mk_leaderboard ''L'' ''A'' ''daily'' ''desc'') = ''L''"
    and b: "l_app_id (mk_leaderboard ''L'' ''A'' ''daily'' ''desc'') = a_id (mk_app ''A'' ''key-a'')"
    and c: "Given 4 \<noteq> Malformed"
    by (simp_all add: scenario_defs)
  have "length (leaderboard_records scenario_db ''L'') = 4"
    by (simp add: leaderboard_records_def scenario_defs)
  with top_scores_total_counts_records[OF k scenario_key scenario_board a b c]
  show ?thesis by simp
qed

text \<open>
  C8 as stated fails: on the scenario's leaderboard the total is 4, and the number of
  distinct score values (100, 90, 80) is 3.
\<close>

theorem top_scores_total_not_distinct_values:
  "top_total (get_top_scores (Some scenario_db) (Some ''key-a'') ''L'' (Given 4)) = Some 4
   \<and> distinct_value_count scenario_db ''L'' = 3"
  by (simp add: get_top_scores_def distinct_value_count_def leaderboard_records_def scenario_defs driver_defs Let_def)

text \<open>
  C10: the limit is clamped from above only. A requested limit of 0 stays 0 under
  \<open>min(limit, 100)\<close> and the cursor then has no limit: TopScores succeeds and returns
  every score record of the leaderboard, as many entries as the leaderboard has records.
  A positive limit never gives more than 100 entries.
\<close>

theorem top_scores_limit_zero_unbounded:
  assumes "k \<noteq> []" and "validate_api_key (Some db) k = Some app"
    and "lb \<in> set (leaderboards db)" and "l_id lb = lid" and "l_app_id lb = a_id app"
  shows "(\<exists>body. get_top_scores (Some db) (Some k) lid (Given 0) = Success body 200
           \<and> mset (map e_score (ts_scores body)) = mset (leaderboard_records db lid)
           \<and> length (ts_scores body) = length (leaderboard_records db lid))
       \<and> (0 < v \<longrightarrow>
            length (top_entries (get_top_scores (Some db) (Some k) lid (Given v))) \<le> 100)"
proof -
  obtain lb' where f: "find_one (\<lambda>l. l_id l = lid \<and> l_app_id l = a_id app) (leaderboards db) = Some lb'"
    using find_one_exists[of lb "leaderboards db" "\<lambda>l. l_id l = lid \<and> l_app_id l = a_id app"] assms by auto
  have v0: "int_arg (Given 0) 10 = Inr 0" and v: "int_arg (Given v) 10 = Inr v" by simp_all
  have "map e_score (map (\<lambda>(idx, score).
             \<lparr>e_rank = int idx + 1, e_score = score,
              e_player = find_one (\<lambda>p. p_id p = s_player_id score) (players db)\<rparr>)
             (enumerate 0 (cursor_limit (min 0 100)
                (cursor_sort s_score (get_leaderboard_sort_order db lid)
                   (filter (\<lambda>s. s_leaderboard_id s = lid) (scores db))))))
        = cursor_sort s_score (get_leaderboard_sort_order db lid) (leaderboard_records db lid)"
    by (simp only: entries_scores) (simp add: cursor_limit_def leaderboard_records_def)
  then have all: "\<exists>body. get_top_scores (Some db) (Some k) lid (Given 0) = Success body 200
           \<and> mset (map e_score (ts_scores body)) = mset (leaderboard_records db lid)
           \<and> length (ts_scores body) = length (leaderboard_records db lid)"
    by (simp add: get_top_scores_success[OF assms(1,2) f v0] mset_cursor_sort
        length_cursor_sort cursor_limit_def leaderboard_records_def del: mset_map)
  have "length (cursor_limit (min v 100) xs) \<le> 100" if "0 < v" for xs :: "score list"
    using that by (auto simp: cursor_limit_def min_def)
  then have capped: "length (top_entries (get_top_scores (Some db) (Some k) lid (Given v))) \<le> 100"
    if "0 < v"
    using that by (simp add: get_top_scores_success[OF assms(1,2) f v])
  from all capped show ?thesis by blast
qed

text \<open>
  Witness for C10: on a leaderboard with 101 score records, limit 0 returns 101 entries,
  more than the documented maximum of 100, and limit 500 returns at most 100.
\<close>

theorem top_scores_limit_zero_unbounded_witness:
  "(\<exists>body. get_top_scores (Some crowded_db) (Some ''key-a'') ''L'' (Given 0) = Success body 200
       \<and> length (ts_scores body) = 101)
   \<and> length (top_entries (get_top_scores (Some crowded_db) (Some ''key-a'') ''L'' (Given 500))) \<le> 100"
proof -
  have k: "''key-a'' \<noteq> []" by simp
  have v: "validate_api_key (Some crowded_db) ''key-a'' = Some (mk_app ''A'' ''key-a'')"
    by (simp add: crowded_db_def scenario_defs driver_defs)
  have m: "mk_leaderboard ''L'' ''A'' ''daily'' ''desc'' \<in> set (leaderboards crowded_db)"
    by (simp add: crowded_db_def scenario_defs)
  have a: "l_id (mk_leaderboard ''L'' ''A'' ''daily'' ''desc'') = ''L''"
    and b: "l_app_id (mk_leaderboard ''L'' ''A'' ''daily'' ''desc'') = a_id (mk_app ''A'' ''key-a'')"
    by (simp_all add: scenario_defs)
  have "length (leaderboard_records crowded_db ''L'') = 101"
    by (simp add: leaderboard_records_def crowded_db_def mk_score_def comp_def)
  with top_scores_limit_zero_unbounded[OF k v m a b, of 500]
  show ?thesis by auto
qed

section \<open>A store that is not available\<close>

text \<open>
  C5 at the failing input: with no database connection and an API key in the request,
  each of the four score operations answers 401 "Invalid API key", not a 5xx error,
  because \<open>validate_api_key\<close> returns \<open>None\<close> when the connection is missing.
\<close>

theorem store_outage_reported_unauthorized:
  "submit_score None (Some ''key-a'') (mk_submit ''L'' ''p1'' 100) ''s1'' ''t1''
     = (Error ''Invalid API key'' 401, None)
   \<and> get_top_scores None (Some ''key-a'') ''L'' Absent = Error ''Invalid API key'' 401
   \<and> get_player_rank None (Some ''key-a'') ''L'' ''p1'' Absent = Error ''Invalid API key'' 401
   \<and> get_player_scores None (Some ''key-a'') ''p1'' = Error ''Invalid API key'' 401"
  by (simp add: submit_score_def get_top_scores_def get_player_rank_def get_player_scores_def
      validate_api_key_def)

section \<open>Submitting a score\<close>

text \<open>
  C6: a submission of an authenticated app that fails validation (a missing field, a
  leaderboard or a player that is not found for the app) returns an error, 400 or 404,
  and leaves the database as it was.
\<close>

theorem submit_score_validation_no_write:
  assumes "k \<noteq> []" and "validate_api_key (Some db) k = Some app"
    and "fails_validation db app data"
  shows "\<exists>msg st. submit_score (Some db) (Some k) data new_id now = (Error msg st, Some db)
           \<and> (st = 400 \<or> st = 404)"
  using assms
  by (auto simp: submit_score_def fails_validation_def list_ex_iff
      split: option.splits dest!: find_one_SomeD)

text \<open>
  Witness for C6: app B submits to the leaderboard of app A; the answer is an error and
  the database is unchanged.
\<close>

theorem submit_score_validation_no_write_witness:
  "\<exists>msg st. submit_score (Some tenants_db) (Some ''key-b'') (mk_submit ''LA'' ''pb'' 7) ''s9'' ''t9''
       = (Error msg st, Some tenants_db) \<and> (st = 400 \<or> st = 404)"
proof -
  have k: "''key-b'' \<noteq> []" by simp
  have v: "validate_api_key (Some tenants_db) ''key-b'' = Some (mk_app ''B'' ''key-b'')"
    by (simp add: tenants_db_def scenario_defs driver_defs)
  have f: "fails_validation tenants_db (mk_app ''B'' ''key-b'') (mk_submit ''LA'' ''pb'' 7)"
    by (simp add: fails_validation_def tenants_db_def scenario_defs)
  show ?thesis
    using submit_score_validation_no_write[OF k v f] .
qed

section \<open>Registering a player\<close>

text \<open>
  C9: after a registration that succeeded and returned a player, a second registration
  of the same app with the same device id returns that player with status 200 and leaves
  the database as the first call left it: no second player record is created.
\<close>

theorem register_player_idempotent:
  assumes "register_player conn (Some k) (Some d1) id1 t1 = (Success (msg1, pl) st1, conn1)"
    and "r_device_id d2 = r_device_id d1" and "r_username d2 \<noteq> None"
  shows "register_player conn1 (Some k) (Some d2) id2 t2
           = (Success (''Player already exists'', pl) 200, conn1)"
  using assms
  by (auto simp: register_player_def validate_api_key_def find_one_def insert_one_def Let_def find_append
      split: option.splits if_splits sum.splits)

text \<open>
  Witness for C9: registering device d9 twice in the scenario's app; the second call
  returns the player p9 that the first call created, and the players are those after the
  first call.
\<close>

theorem register_player_idempotent_witness:
  "register_player
      (snd (register_player (Some scenario_start) (Some ''key-a'') (mk_register ''eve'' ''d9'') ''p9'' ''t9''))
      (Some ''key-a'') (mk_register ''eve2'' ''d9'') ''p10'' ''t10''
     = (Success (''Player already exists'',
          \<lparr>p_id = ''p9'', p_app_id = ''A'', p_device_id = ''d9'', p_user_id = None,
           p_username = ''eve'', p_avatar_url = None, p_created_at = ''t9'', p_linked_at = None\<rparr>) 200,
        Some (scenario_start\<lparr>players := players scenario_start @
          [\<lparr>p_id = ''p9'', p_app_id = ''A'', p_device_id = ''d9'', p_user_id = None,
           p_username = ''eve'', p_avatar_url = None, p_created_at = ''t9'', p_linked_at = None\<rparr>]\<rparr>))"
proof -
  let ?pl = "\<lparr>p_id = ''p9'', p_app_id = ''A'', p_device_id = ''d9'', p_user_id = None,
           p_username = ''eve'', p_avatar_url = None, p_created_at = ''t9'', p_linked_at = None\<rparr>"
  let ?db1 = "Some (scenario_start\<lparr>players := players scenario_start @ [?pl]\<rparr>)"
  have first: "register_player (Some scenario_start) (Some ''key-a'')
      (Some \<lparr>r_username = Some ''eve'', r_device_id = Some ''d9'', r_avatar_url = None\<rparr>) ''p9'' ''t9''
     = (Success (''Player registered successfully'', ?pl) 201, ?db1)"
    by (simp add: register_player_def scenario_defs driver_defs Let_def)
  have same: "r_device_id \<lparr>r_username = Some ''eve2'', r_device_id = Some ''d9'', r_avatar_url = None\<rparr>
      = r_device_id \<lparr>r_username = Some ''eve'', r_device_id = Some ''d9'', r_avatar_url = None\<rparr>"
    and name: "r_username \<lparr>r_username = Some ''eve2'', r_device_id = Some ''d9'', r_avatar_url = None\<rparr> \<noteq> None"
    by simp_all
  show ?thesis
    using register_player_idempotent[OF first same name, of "''p10''" "''t10''"]
    by (simp add: mk_register_def first)
qed

section \<open>Rank and nearby window of a player\<close>

lemma get_player_rank_checks:
  assumes "k \<noteq> []" and "validate_api_key (Some db) k = Some app"
    and "lb \<in> set (leaderboards db)" and "l_id lb = lid" and "l_app_id lb = a_id app"
    and "pl \<in> set (players db)" and "p_id pl = pid" and "p_app_id pl = a_id app"
    and "int_arg arg 5 = Inr v"
  shows "\<exists>pl'. get_player_rank (Some db) (Some k) lid pid arg
           = rank_and_nearby db pl' lid pid (min v 20)"
proof -
  obtain lb' where f: "find_one (\<lambda>l. l_id l = lid \<and> l_app_id l = a_id app) (leaderboards db) = Some lb'"
    using find_one_exists[of lb "leaderboards db" "\<lambda>l. l_id l = lid \<and> l_app_id l = a_id app"] assms by auto
  obtain pl' where g: "find_one (\<lambda>p. p_id p = pid \<and> p_app_id p = a_id app) (players db) = Some pl'"
    using find_one_exists[of pl "players db" "\<lambda>p. p_id p = pid \<and> p_app_id p = a_id app"] assms by auto
  show ?thesis
    using assms(1,2,9) f g by (auto simp: get_player_rank_def)
qed

lemma rank_and_nearby_success:
  assumes mine: "filter (\<lambda>s. s_player_id s = pid) (leaderboard_records db lid) \<noteq> []"
  defines "d \<equiv> get_leaderboard_sort_order db lid"
  defines "board \<equiv> cursor_sort s_score d (leaderboard_records db lid)"
  defines "best \<equiv> hd (cursor_sort s_score d
      (filter (\<lambda>s. s_player_id s = pid) (leaderboard_records db lid)))"
  shows "\<exists>pos. player_position pid board = Some pos \<and> pos < length board
      \<and> board ! pos = best
      \<and> rank_and_nearby db pl lid pid n =
        Success \<lparr>pr_player = pl, pr_best_score = best,
          pr_rank = int (length (filter (\<lambda>s. if d = - 1 then s_score best < s_score s
             else s_score s < s_score best) (leaderboard_records db lid))) + 1,
          pr_total_players = length (remdups (map s_player_id (leaderboard_records db lid))),
          pr_nearby = map (\<lambda>(idx, score).
             \<lparr>e_rank = window_start pos n + int idx + 1, e_score = score,
              e_player = find_one (\<lambda>p. p_id p = s_player_id score) (players db)\<rparr>)
             (enumerate 0 (py_slice board (window_start pos n)
                (window_end (length board) pos n)))\<rparr> 200"
proof -
  let ?mine = "filter (\<lambda>s. s_player_id s = pid) (leaderboard_records db lid)"
  have mine_eq: "filter (\<lambda>s. s_leaderboard_id s = lid \<and> s_player_id s = pid) (scores db) = ?mine"
    by (simp add: leaderboard_records_def conj_commute)
  have "cursor_sort s_score d ?mine \<noteq> []"
    using mine by (simp add: cursor_sort_Nil_iff)
  then obtain rest where sorted_mine: "cursor_sort s_score d ?mine = best # rest"
    unfolding best_def by (cases "cursor_sort s_score d ?mine") auto
  have "pid \<in> s_player_id ` set board"
  proof -
    obtain s where "s \<in> set ?mine" using mine by (cases ?mine) auto
    then show ?thesis by (auto simp: board_def set_cursor_sort)
  qed
  then obtain pos where pos: "player_position pid board = Some pos" "pos < length board"
    "board ! pos = hd (filter (\<lambda>s. s_player_id s = pid) board)"
    using player_position_first by blast
  have "filter (\<lambda>s. s_player_id s = pid) board = cursor_sort s_score d ?mine"
    by (simp add: board_def filter_cursor_sort)
  then have at_pos: "board ! pos = best"
    using pos(3) by (simp add: best_def)
  have "rank_and_nearby db pl lid pid n =
        Success \<lparr>pr_player = pl, pr_best_score = best,
          pr_rank = int (length (filter (\<lambda>s. if d = - 1 then s_score best < s_score s
             else s_score s < s_score best) (leaderboard_records db lid))) + 1,
          pr_total_players = length (remdups (map s_player_id (leaderboard_records db lid))),
          pr_nearby = map (\<lambda>(idx, score).
             \<lparr>e_rank = window_start pos n + int idx + 1, e_score = score,
              e_player = find_one (\<lambda>p. p_id p = s_player_id score) (players db)\<rparr>)
             (enumerate 0 (py_slice board (window_start pos n)
                (window_end (length board) pos n)))\<rparr> 200"
    using pos(1) sorted_mine
    unfolding rank_and_nearby_def mine_eq d_def[symmetric]
    by (simp add: Let_def cursor_limit_def count_documents_def distinct_field_def
        filter_records leaderboard_records_def[symmetric] board_def[symmetric] window_start_def window_end_def
        d_def[symmetric])
  with pos(1,2) at_pos show ?thesis by blast
qed

lemma window_facts:
  assumes "pos < length xs" and "0 \<le> n"
  defines "w \<equiv> py_slice xs (window_start pos n) (window_end (length xs) pos n)"
  shows "xs = take (nat (window_start pos n)) xs @ w @ drop (nat (window_end (length xs) pos n)) xs"
    and "1 \<le> length w" and "int (length w) \<le> 2 * n + 1" and "xs ! pos \<in> set w"
proof -
  let ?a = "window_start pos n" and ?b = "window_end (length xs) pos n"
  have a: "0 \<le> ?a" "?a \<le> int pos" "int pos - n \<le> ?a"
    using assms(2) by (simp_all add: window_start_def)
  have b: "int pos + 1 \<le> ?b" "?b \<le> int (length xs)" "?b \<le> int pos + n + 1"
    using assms(1,2) by (simp_all add: window_end_def)
  have w: "w = take (nat ?b - nat ?a) (drop (nat ?a) xs)"
    unfolding w_def using a b by (intro py_slice_inside) linarith+
  have na: "nat ?a \<le> pos" using a by linarith
  have nb: "pos < nat ?b" "nat ?b \<le> length xs" using b by linarith+
  show "xs = take (nat ?a) xs @ w @ drop (nat ?b) xs"
    unfolding w using na nb by (intro split_window) linarith+
  have len: "length w = nat ?b - nat ?a"
    unfolding w using nb by simp
  show "1 \<le> length w" using len na nb by linarith
  show "int (length w) \<le> 2 * n + 1" using len a b na nb by linarith
  have "w ! (pos - nat ?a) = xs ! pos"
    unfolding w using na nb by simp
  moreover have "pos - nat ?a < length w" using len na nb by linarith
  ultimately show "xs ! pos \<in> set w" by (metis nth_mem)
qed

lemma board_in_direction:
  assumes "unique_leaderboard_ids db" and "lb \<in> set (leaderboards db)" and "l_id lb = lid"
    and "l_sort_order lb = Some so"
  shows "in_direction so (map s_score
     (cursor_sort s_score (get_leaderboard_sort_order db lid) (leaderboard_records db lid)))"
proof (cases "so = ''desc''")
  case True
  then have "get_leaderboard_sort_order db lid = - 1"
    using sort_order_of_leaderboard[OF assms] by simp
  then show ?thesis
    using True sorted_cursor_sort_desc[of s_score "leaderboard_records db lid"]
    by (simp add: in_direction_def sorted_wrt_map)
next
  case False
  then have "get_leaderboard_sort_order db lid \<noteq> - 1"
    using sort_order_of_leaderboard[OF assms] by simp
  then show ?thesis
    using False sorted_cursor_sort_asc[of _ s_score "leaderboard_records db lid"]
    by (simp add: in_direction_def sorted_wrt_map)
qed


lemma has_score_records:
  "player_values db lid pid \<noteq> [] \<Longrightarrow>
   filter (\<lambda>s. s_player_id s = pid) (leaderboard_records db lid) \<noteq> []"
  by (simp add: player_values_def)

lemma best_is_best_value:
  assumes "unique_leaderboard_ids db" and "lb \<in> set (leaderboards db)" and "l_id lb = lid"
    and "l_sort_order lb = Some so" and "player_values db lid pid \<noteq> []"
  shows "s_score (hd (cursor_sort s_score (get_leaderboard_sort_order db lid)
      (filter (\<lambda>s. s_player_id s = pid) (leaderboard_records db lid))))
    = best_value so (player_values db lid pid)"
proof (cases "so = ''desc''")
  case True
  then have "get_leaderboard_sort_order db lid = - 1"
    using sort_order_of_leaderboard[OF assms(1-4)] by simp
  then show ?thesis
    using True hd_cursor_sort_desc[OF has_score_records[OF assms(5)], of s_score]
    by (simp add: best_value_def player_values_def)
next
  case False
  then have "get_leaderboard_sort_order db lid \<noteq> - 1"
    using sort_order_of_leaderboard[OF assms(1-4)] by simp
  then show ?thesis
    using False hd_cursor_sort_asc[OF has_score_records[OF assms(5)], of _ s_score]
    by (simp add: best_value_def player_values_def)
qed

text \<open>
  C3: for a player of the authenticated app with at least one score on a leaderboard
  of the app, PlayerRank succeeds; the best score it reports is the player's highest
  value for \<open>desc\<close> and lowest for \<open>asc\<close>, and the rank is 1 plus the number of
  score records on the leaderboard that are strictly better than it.
\<close>

theorem player_rank_counts_better_records:
  assumes "k \<noteq> []" and "validate_api_key (Some db) k = Some app"
    and "unique_leaderboard_ids db"
    and "lb \<in> set (leaderboards db)" and "l_id lb = lid" and "l_app_id lb = a_id app"
    and "l_sort_order lb = Some so" and "so = ''desc'' \<or> so = ''asc''"
    and "pl \<in> set (players db)" and "p_id pl = pid" and "p_app_id pl = a_id app"
    and "player_values db lid pid \<noteq> []" and "arg \<noteq> Malformed"
  shows "\<exists>body. get_player_rank (Some db) (Some k) lid pid arg = Success body 200
     \<and> s_score (pr_best_score body) = best_value so (player_values db lid pid)
     \<and> pr_rank body = rank_of so (leaderboard_records db lid)
          (best_value so (player_values db lid pid))"
proof -
  obtain v where v: "int_arg arg 5 = Inr v"
    using assms(13) by (cases arg) auto
  obtain pl' where run: "get_player_rank (Some db) (Some k) lid pid arg
      = rank_and_nearby db pl' lid pid (min v 20)"
    using get_player_rank_checks[OF assms(1,2,4,5,6,9,10,11) v] by blast
  let ?d = "get_leaderboard_sort_order db lid"
  let ?best = "hd (cursor_sort s_score ?d
      (filter (\<lambda>s. s_player_id s = pid) (leaderboard_records db lid)))"
  obtain body where body: "rank_and_nearby db pl' lid pid (min v 20) = Success body 200"
    and best: "pr_best_score body = ?best"
    and rank: "pr_rank body = int (length (filter (\<lambda>s. if ?d = - 1 then s_score ?best < s_score s
             else s_score s < s_score ?best) (leaderboard_records db lid))) + 1"
    using rank_and_nearby_success[OF has_score_records[OF assms(12)], of pl' "min v 20"]
    by force
  have bv: "s_score ?best = best_value so (player_values db lid pid)"
    using best_is_best_value[OF assms(3,4,5,7,12)] .
  have d: "?d = (if so = ''desc'' then - 1 else 1)"
    using sort_order_of_leaderboard[OF assms(3,4,5,7)] .
  have "pr_rank body = rank_of so (leaderboard_records db lid)
          (best_value so (player_values db lid pid))"
  proof (cases "so = ''desc''")
    case True
    then have "?d = - 1" using d by simp
    then show ?thesis
      unfolding rank bv using True by (simp add: rank_of_def better_def)
  next
    case False
    then have "?d \<noteq> - 1" and "so = ''asc''" using d assms(8) by simp_all
    then show ?thesis
      unfolding rank bv by (simp add: rank_of_def better_def)
  qed
  with run body best bv show ?thesis by simp
qed

text \<open>
  Witness for C3: in the scenario p2 has the best score 90; the two records of 100 are
  better, so the rank is 3.
\<close>

theorem player_rank_counts_better_records_witness:
  "\<exists>body. get_player_rank (Some scenario_db) (Some ''key-a'') ''L'' ''p2'' (Given 1) = Success body 200
     \<and> s_score (pr_best_score body) = 90 \<and> pr_rank body = 3"
proof -
  have k: "''key-a'' \<noteq> []" by simp
  have a: "l_id (mk_leaderboard ''L'' ''A'' ''daily'' ''desc'') = ''L''"
    and b: "l_app_id (mk_leaderboard ''L'' ''A'' ''daily'' ''desc'') = a_id (mk_app ''A'' ''key-a'')"
    and so: "l_sort_order (mk_leaderboard ''L'' ''A'' ''daily'' ''desc'') = Some ''desc''"
    and so': "''desc'' = ''desc'' \<or> ''desc'' = ''asc''"
    and p: "mk_player ''p2'' ''A'' ''d2'' \<in> set (players scenario_db)"
    and p1: "p_id (mk_player ''p2'' ''A'' ''d2'') = ''p2''"
    and p2: "p_app_id (mk_player ''p2'' ''A'' ''d2'') = a_id (mk_app ''A'' ''key-a'')"
    and arg: "Given 1 \<noteq> Malformed"
    by (simp_all add: scenario_defs)
  have pv: "player_values scenario_db ''L'' ''p2'' = [90]"
    by (simp add: player_values_def leaderboard_records_def scenario_defs)
  then have has: "player_values scenario_db ''L'' ''p2'' \<noteq> []" by simp
  have r: "rank_of ''desc'' (leaderboard_records scenario_db ''L'') 90 = 3"
    by (simp add: rank_of_def better_def leaderboard_records_def scenario_defs)
  show ?thesis
    using player_rank_counts_better_records[OF k scenario_key scenario_unique scenario_board
        a b so so' p p1 p2 has arg]
    by (simp add: pv r best_value_def)
qed




text \<open>
  C2, as the code has it: the ordering used for the window holds every score record of
  the leaderboard, also the scores of a player that are not the player's best. When the
  requested \<open>nearby\<close> is not negative, the window is a contiguous part of that
  ordering, and it contains the best score of the queried player.
\<close>

theorem nearby_window_over_all_records:
  assumes "k \<noteq> []" and "validate_api_key (Some db) k = Some app"
    and "unique_leaderboard_ids db"
    and "lb \<in> set (leaderboards db)" and "l_id lb = lid" and "l_app_id lb = a_id app"
    and "l_sort_order lb = Some so"
    and "pl \<in> set (players db)" and "p_id pl = pid" and "p_app_id pl = a_id app"
    and "player_values db lid pid \<noteq> []" and "int_arg arg 5 = Inr v" and "0 \<le> v"
  shows "\<exists>body before after. get_player_rank (Some db) (Some k) lid pid arg = Success body 200
     \<and> mset (before @ map e_score (pr_nearby body) @ after) = mset (leaderboard_records db lid)
     \<and> in_direction so (map s_score (before @ map e_score (pr_nearby body) @ after))
     \<and> pr_best_score body \<in> set (map e_score (pr_nearby body))
     \<and> s_score (pr_best_score body) = best_value so (player_values db lid pid)"
proof -
  obtain pl' where run: "get_player_rank (Some db) (Some k) lid pid arg
      = rank_and_nearby db pl' lid pid (min v 20)"
    using get_player_rank_checks[OF assms(1,2,4,5,6,8,9,10,12)] by blast
  let ?n = "min v 20"
  let ?d = "get_leaderboard_sort_order db lid"
  let ?board = "cursor_sort s_score ?d (leaderboard_records db lid)"
  let ?best = "hd (cursor_sort s_score ?d
      (filter (\<lambda>s. s_player_id s = pid) (leaderboard_records db lid)))"
  have n: "0 \<le> ?n" using assms(13) by simp
  obtain pos body where pos: "pos < length ?board" and at_pos: "?board ! pos = ?best"
    and body: "rank_and_nearby db pl' lid pid ?n = Success body 200"
    and best: "pr_best_score body = ?best"
    and near: "pr_nearby body = map (\<lambda>(idx, score).
             \<lparr>e_rank = window_start pos ?n + int idx + 1, e_score = score,
              e_player = find_one (\<lambda>p. p_id p = s_player_id score) (players db)\<rparr>)
             (enumerate 0 (py_slice ?board (window_start pos ?n)
                (window_end (length ?board) pos ?n)))"
    using rank_and_nearby_success[OF has_score_records[OF assms(11)], of pl' ?n]
    by force
  let ?w = "py_slice ?board (window_start pos ?n) (window_end (length ?board) pos ?n)"
  let ?before = "take (nat (window_start pos ?n)) ?board"
  let ?after = "drop (nat (window_end (length ?board) pos ?n)) ?board"
  have recs: "map e_score (pr_nearby body) = ?w"
    unfolding near by (rule entries_scores)
  have split: "?board = ?before @ ?w @ ?after"
    using window_facts(1)[OF pos n] .
  have "mset (?before @ ?w @ ?after) = mset (leaderboard_records db lid)"
    using mset_cursor_sort[of s_score ?d "leaderboard_records db lid"] split by metis
  moreover have "in_direction so (map s_score (?before @ ?w @ ?after))"
    using board_in_direction[OF assms(3,4,5,7)] split by metis
  moreover have "pr_best_score body \<in> set ?w"
    using window_facts(4)[OF pos n] at_pos best by metis
  moreover have "s_score (pr_best_score body) = best_value so (player_values db lid pid)"
    unfolding best using best_is_best_value[OF assms(3,4,5,7,11)] .
  ultimately have "get_player_rank (Some db) (Some k) lid pid arg = Success body 200
     \<and> mset (?before @ map e_score (pr_nearby body) @ ?after) = mset (leaderboard_records db lid)
     \<and> in_direction so (map s_score (?before @ map e_score (pr_nearby body) @ ?after))
     \<and> pr_best_score body \<in> set (map e_score (pr_nearby body))
     \<and> s_score (pr_best_score body) = best_value so (player_values db lid pid)"
    unfolding recs using run body by simp
  then show ?thesis by blast
qed

text \<open>
  Witness for C2: the leaderboard on which p1 has the scores 100 and 90.
\<close>

theorem nearby_window_over_all_records_witness:
  "\<exists>body before after. get_player_rank (Some repeat_db) (Some ''key-a'') ''L'' ''p1'' Absent = Success body 200
     \<and> mset (before @ map e_score (pr_nearby body) @ after) = mset (leaderboard_records repeat_db ''L'')
     \<and> in_direction ''desc'' (map s_score (before @ map e_score (pr_nearby body) @ after))
     \<and> pr_best_score body \<in> set (map e_score (pr_nearby body))
     \<and> s_score (pr_best_score body) = 100"
proof -
  have k: "''key-a'' \<noteq> []" by simp
  have v: "validate_api_key (Some repeat_db) ''key-a'' = Some (mk_app ''A'' ''key-a'')"
    by (simp add: repeat_db_def scenario_defs driver_defs)
  have u: "unique_leaderboard_ids repeat_db"
    by (simp add: unique_leaderboard_ids_def repeat_db_def scenario_defs)
  have m: "mk_leaderboard ''L'' ''A'' ''daily'' ''desc'' \<in> set (leaderboards repeat_db)"
    by (simp add: repeat_db_def scenario_defs)
  have a: "l_id (mk_leaderboard ''L'' ''A'' ''daily'' ''desc'') = ''L''"
    and b: "l_app_id (mk_leaderboard ''L'' ''A'' ''daily'' ''desc'') = a_id (mk_app ''A'' ''key-a'')"
    and so: "l_sort_order (mk_leaderboard ''L'' ''A'' ''daily'' ''desc'') = Some ''desc''"
    and p: "mk_player ''p1'' ''A'' ''d1'' \<in> set (players repeat_db)"
    and p1: "p_id (mk_player ''p1'' ''A'' ''d1'') = ''p1''"
    and p2: "p_app_id (mk_player ''p1'' ''A'' ''d1'') = a_id (mk_app ''A'' ''key-a'')"
    and arg: "int_arg Absent 5 = Inr 5" and nn: "(0::int) \<le> 5"
    by (simp_all add: repeat_db_def scenario_defs)
  have pv: "player_values repeat_db ''L'' ''p1'' = [100, 90]"
    by (simp add: player_values_def leaderboard_records_def repeat_db_def scenario_defs)
  then have has: "player_values repeat_db ''L'' ''p1'' \<noteq> []" by simp
  show ?thesis
    using nearby_window_over_all_records[OF k v u m a b so p p1 p2 has arg nn]
    by (simp add: pv best_value_def)
qed

text \<open>
  C2 as stated fails: p1 has the scores 100 and 90, p2 has 95; the window around p1
  holds both scores of p1.
\<close>

theorem nearby_window_repeats_player:
  "map (\<lambda>e. (s_player_id (e_score e), s_score (e_score e)))
     (nearby_entries (get_player_rank (Some repeat_db) (Some ''key-a'') ''L'' ''p1'' Absent))
   = [(''p1'', 100), (''p2'', 95), (''p1'', 90)]"
  by (simp add: get_player_rank_def rank_and_nearby_def py_slice_def repeat_db_def scenario_defs
      driver_defs Let_def enumerate_eq_zip upt_rec)

section \<open>Tenant isolation\<close>

lemma top_scores_records_scope:
  assumes "s \<in> set (top_scores_records (get_top_scores (Some db) (Some k) lid arg))"
    and "validate_api_key (Some db) k = Some app"
  shows "\<exists>lb \<in> set (leaderboards db). l_id lb = s_leaderboard_id s \<and> l_app_id lb = a_id app"
proof -
  from assms obtain lb v where
    f: "find_one (\<lambda>l. l_id l = lid \<and> l_app_id l = a_id app) (leaderboards db) = Some lb"
    and s: "s \<in> set (map e_score (map (\<lambda>(idx, score).
             \<lparr>e_rank = int idx + 1, e_score = score,
              e_player = find_one (\<lambda>p. p_id p = s_player_id score) (players db)\<rparr>)
             (enumerate 0 (cursor_limit (min v 100)
                (cursor_sort s_score (get_leaderboard_sort_order db lid)
                   (filter (\<lambda>s. s_leaderboard_id s = lid) (scores db)))))))"
    by (auto simp: get_top_scores_def Let_def split: option.splits if_splits sum.splits)
  from s have "s \<in> set (cursor_limit (min v 100)
                (cursor_sort s_score (get_leaderboard_sort_order db lid)
                   (filter (\<lambda>s. s_leaderboard_id s = lid) (scores db))))"
    by (simp only: entries_scores)
  then have "s \<in> set (filter (\<lambda>s. s_leaderboard_id s = lid) (scores db))"
    using set_cursor_limit[of "min v 100"] by (fastforce simp: set_cursor_sort)
  then have "s_leaderboard_id s = lid" by simp
  with find_one_SomeD[OF f] show ?thesis by auto
qed

lemma rank_and_nearby_scope:
  assumes "s \<in> set (player_rank_records (rank_and_nearby db pl lid pid n))"
  shows "s_leaderboard_id s = lid"
proof -
  let ?d = "get_leaderboard_sort_order db lid"
  let ?mine = "cursor_limit 1 (cursor_sort s_score ?d
      (filter (\<lambda>s. s_leaderboard_id s = lid \<and> s_player_id s = pid) (scores db)))"
  let ?board = "cursor_sort s_score ?d (filter (\<lambda>s. s_leaderboard_id s = lid) (scores db))"
  from assms obtain best rest pos a b f g where mine: "?mine = best # rest"
    and s: "s = best \<or> s \<in> set (map e_score (map (\<lambda>(idx, score).
       \<lparr>e_rank = f idx, e_score = score, e_player = g score\<rparr>)
       (enumerate 0 (py_slice ?board a b))))"
    by (auto simp: rank_and_nearby_def Let_def split: list.splits option.splits)
  have "best \<in> set ?mine" by (simp add: mine)
  then have "best \<in> set (filter (\<lambda>s. s_leaderboard_id s = lid \<and> s_player_id s = pid)
      (scores db))"
    using set_cursor_limit[of 1] by (fastforce simp: set_cursor_sort)
  then have best: "s_leaderboard_id best = lid" by simp
  have "s \<in> set (py_slice ?board a b) \<Longrightarrow> s_leaderboard_id s = lid"
    using set_py_slice[of ?board a b] by (auto simp: set_cursor_sort)
  with s best show ?thesis by (auto simp only: entries_scores)
qed

lemma player_rank_records_scope:
  assumes "s \<in> set (player_rank_records (get_player_rank (Some db) (Some k) lid pid arg))"
    and "validate_api_key (Some db) k = Some app"
  shows "\<exists>lb \<in> set (leaderboards db). l_id lb = s_leaderboard_id s \<and> l_app_id lb = a_id app"
proof -
  from assms obtain lb pl n where
    f: "find_one (\<lambda>l. l_id l = lid \<and> l_app_id l = a_id app) (leaderboards db) = Some lb"
    and s: "s \<in> set (player_rank_records (rank_and_nearby db pl lid pid n))"
    by (auto simp: get_player_rank_def split: option.splits if_splits sum.splits)
  from rank_and_nearby_scope[OF s] find_one_SomeD[OF f] show ?thesis by auto
qed

lemma player_scores_records_scope:
  assumes "s \<in> set (player_scores_records (get_player_scores (Some db) (Some k) pid))"
    and "validate_api_key (Some db) k = Some app"
  shows "\<exists>lb \<in> set (leaderboards db). l_id lb = s_leaderboard_id s \<and> l_app_id lb = a_id app"
proof -
  let ?mine = "map_of (rev (map (\<lambda>lb. (l_id lb, lb))
             (filter (\<lambda>l. l_app_id l = a_id app) (leaderboards db))))"
  from assms have "s \<in> set (cursor_sort s_created_at (- 1)
             (filter (\<lambda>s. s_player_id s = pid \<and> s_leaderboard_id s \<in> dom ?mine) (scores db)))"
    by (auto simp: get_player_scores_def Let_def comp_def split: option.splits if_splits)
  then have "s_leaderboard_id s \<in> dom ?mine"
    by (simp add: set_cursor_sort)
  then show ?thesis
    by (auto simp: dom_map_of_conv_image_fst)
qed

text \<open>
  C4: where leaderboard ids are unique, a score record on a leaderboard owned by an app
  other than the authenticated one is in no response of TopScores, PlayerRank or
  PlayerHistory, whatever leaderboard id, player id and arguments the request names, and
  whatever the leaderboards are called.
\<close>

theorem tenant_isolation:
  assumes "unique_leaderboard_ids db"
    and "validate_api_key (Some db) k = Some appB"
    and "lbA \<in> set (leaderboards db)" and "l_app_id lbA \<noteq> a_id appB"
    and "s_leaderboard_id s = l_id lbA"
  shows "s \<notin> set (top_scores_records (get_top_scores (Some db) (Some k) lid limit_arg))
       \<and> s \<notin> set (player_rank_records (get_player_rank (Some db) (Some k) lid pid nearby_arg))
       \<and> s \<notin> set (player_scores_records (get_player_scores (Some db) (Some k) pid'))"
proof -
  have foreign: "\<not> (\<exists>lb \<in> set (leaderboards db).
      l_id lb = s_leaderboard_id s \<and> l_app_id lb = a_id appB)"
    using same_leaderboard[OF assms(1) _ assms(3)] assms(4,5) by auto
  show ?thesis
    using foreign top_scores_records_scope[OF _ assms(2)]
      player_rank_records_scope[OF _ assms(2)] player_scores_records_scope[OF _ assms(2)]
    by blast
qed

text \<open>
  Witness for C4: apps A and B both own a leaderboard named "daily"; the score on the
  leaderboard of A is stored, and it is in none of the answers to B.
\<close>

theorem tenant_isolation_witness:
  "mk_score ''s1'' ''LA'' ''pa'' 50 ''t1'' \<in> set (scores tenants_db)
   \<and> mk_score ''s1'' ''LA'' ''pa'' 50 ''t1''
       \<notin> set (top_scores_records (get_top_scores (Some tenants_db) (Some ''key-b'') ''LB'' Absent))
   \<and> mk_score ''s1'' ''LA'' ''pa'' 50 ''t1''
       \<notin> set (player_rank_records (get_player_rank (Some tenants_db) (Some ''key-b'') ''LB'' ''pb'' Absent))
   \<and> mk_score ''s1'' ''LA'' ''pa'' 50 ''t1''
       \<notin> set (player_scores_records (get_player_scores (Some tenants_db) (Some ''key-b'') ''pb''))"
proof -
  have u: "unique_leaderboard_ids tenants_db"
    by (simp add: unique_leaderboard_ids_def tenants_db_def scenario_defs)
  have v: "validate_api_key (Some tenants_db) ''key-b'' = Some (mk_app ''B'' ''key-b'')"
    by (simp add: tenants_db_def scenario_defs driver_defs)
  have m: "mk_leaderboard ''LA'' ''A'' ''daily'' ''desc'' \<in> set (leaderboards tenants_db)"
    and o: "l_app_id (mk_leaderboard ''LA'' ''A'' ''daily'' ''desc'') \<noteq> a_id (mk_app ''B'' ''key-b'')"
    and s: "s_leaderboard_id (mk_score ''s1'' ''LA'' ''pa'' 50 ''t1'')
        = l_id (mk_leaderboard ''LA'' ''A'' ''daily'' ''desc'')"
    and i: "mk_score ''s1'' ''LA'' ''pa'' 50 ''t1'' \<in> set (scores tenants_db)"
    by (simp_all add: tenants_db_def scenario_defs)
  show ?thesis
    using tenant_isolation[OF u v m o s, of "''LB''" Absent "''pb''" Absent "''pb''"] i
    by simp
qed

end
